theory Spec2Isabelle
  imports Complex_Main "HOL-Library.Sublist" "HOL-Library.Multiset"
begin

section \<open>Python values used by the critique, refinement and workflow code\<close>

text \<open>
  Scores are Python floats; they are modelled as real numbers, so sums, quotients and
  comparisons are exact. A \<^verbatim>\<open>Dict[str, float]\<close> is an association list in insertion
  order; iterating the dictionary and indexing it with the key met is the iteration over
  its entries.
\<close>

type_synonym score_dict = "(string \<times> real) list"

text \<open>\<^verbatim>\<open>d.get(key, default)\<close>\<close>

definition dict_get :: "('k \<times> 'v) list \<Rightarrow> 'k \<Rightarrow> 'v \<Rightarrow> 'v" where
  "dict_get d k dflt = (case map_of d k of Some v \<Rightarrow> v | None \<Rightarrow> dflt)"

section \<open>Scorer (critique_agent/scoring/scorer.py)\<close>

text \<open>The comprehension \<^verbatim>\<open>{dim: 1.0 / n for dim in dimension_scores}\<close>.\<close>

definition equal_weights :: "score_dict \<Rightarrow> real \<Rightarrow> score_dict" where
  "equal_weights dimension_scores n = map (\<lambda>(dname, s). (dname, 1 / n)) dimension_scores"

text \<open>
  \<^verbatim>\<open>Scorer.calculate_overall_score(dimension_scores, weights=None)\<close>. The two local
  variables \<^verbatim>\<open>weights\<close> and \<^verbatim>\<open>total_weight\<close> are reassigned by the source; each
  assignment is a new \<open>let\<close> binding here.
\<close>

definition calculate_overall_score :: "score_dict \<Rightarrow> score_dict option \<Rightarrow> real" where
  "calculate_overall_score dimension_scores weights =
     (if dimension_scores = [] then 0
      else
        let n = real (length dimension_scores);
            weights1 = (case weights of
                          None \<Rightarrow> equal_weights dimension_scores n
                        | Some w \<Rightarrow> w);
            total_weight1 = (\<Sum>(dname, s) \<leftarrow> dimension_scores. dict_get weights1 dname 0);
            total_weight = (if total_weight1 = 0 then n else total_weight1);
            weights2 = (if total_weight1 = 0
                        then equal_weights dimension_scores total_weight
                        else weights1);
            weighted_sum = (\<Sum>(dname, s) \<leftarrow> dimension_scores. s * dict_get weights2 dname (1 / n));
            overall_score = (if total_weight > 0 then weighted_sum / total_weight else 0)
        in max 0 (min 1 overall_score))"

text \<open>The loop of \<^verbatim>\<open>determine_pass_fail\<close> over \<^verbatim>\<open>dimension_scores.items()\<close>.\<close>

fun dimensions_meet_minimum :: "score_dict \<Rightarrow> real \<Rightarrow> bool" where
  "dimensions_meet_minimum [] min_dimension = True"
| "dimensions_meet_minimum ((dname, score) # rest) min_dimension =
     (if score < min_dimension then False else dimensions_meet_minimum rest min_dimension)"

text \<open>
  \<^verbatim>\<open>Scorer.determine_pass_fail(overall_score, dimension_scores, min_overall=0.6,
  min_dimension=0.4)\<close>
\<close>

definition determine_pass_fail :: "real \<Rightarrow> score_dict \<Rightarrow> real \<Rightarrow> real \<Rightarrow> bool" where
  "determine_pass_fail overall_score dimension_scores min_overall min_dimension =
     (if overall_score < min_overall then False
      else dimensions_meet_minimum dimension_scores min_dimension)"

definition default_min_overall :: real where
  "default_min_overall = 0.6"

definition default_min_dimension :: real where
  "default_min_dimension = 0.4"

text \<open>The unweighted arithmetic mean of the scores of a dictionary.\<close>

definition mean_score :: "score_dict \<Rightarrow> real" where
  "mean_score dimension_scores = sum_list (map snd dimension_scores) / real (length dimension_scores)"

definition clamp01 :: "real \<Rightarrow> real" where
  "clamp01 x = max 0 (min 1 x)"

section \<open>Properties of the Scorer\<close>

lemma dict_get_equal_weights:
  assumes "(dname, s) \<in> set ds"
  shows "dict_get (equal_weights ds n) dname dflt = 1 / n"
proof -
  from assms have "map_of (equal_weights ds n) dname = Some (1 / n)"
    by (induction ds) (auto simp: equal_weights_def)
  then show ?thesis by (simp add: dict_get_def)
qed

lemma sum_equal_weights:
  "(\<Sum>(dname, s) \<leftarrow> ds. dict_get (equal_weights ds n) dname dflt) = real (length ds) * (1 / n)"
proof -
  have "map (\<lambda>(dname, s). dict_get (equal_weights ds n) dname dflt) ds = map (\<lambda>_. 1 / n) ds"
    by (rule map_cong) (auto simp: dict_get_equal_weights)
  then have "(\<Sum>(dname, s) \<leftarrow> ds. dict_get (equal_weights ds n) dname dflt) = sum_list (map (\<lambda>_. 1 / n) ds)"
    by (rule arg_cong)
  then show ?thesis by (simp add: sum_list_triv)
qed

lemma weighted_sum_equal_weights:
  "(\<Sum>(dname, s) \<leftarrow> ds. s * dict_get (equal_weights ds n) dname dflt) = sum_list (map snd ds) / n"
proof -
  have "map (\<lambda>(dname, s). s * dict_get (equal_weights ds n) dname dflt) ds = map (\<lambda>p. snd p * (1 / n)) ds"
    by (rule map_cong) (auto simp: dict_get_equal_weights)
  then have "(\<Sum>(dname, s) \<leftarrow> ds. s * dict_get (equal_weights ds n) dname dflt) = (\<Sum>p \<leftarrow> ds. snd p * (1 / n))"
    by (rule arg_cong)
  also have "\<dots> = sum_list (map snd ds) * (1 / n)"
    by (simp only: sum_list_mult_const [symmetric] map_map o_def)
  finally show ?thesis by simp
qed

lemma dimensions_meet_minimum_iff:
  "dimensions_meet_minimum ds m \<longleftrightarrow> (\<forall>p \<in> set ds. m \<le> snd p)"
  by (induction ds m rule: dimensions_meet_minimum.induct) auto

lemma calculate_overall_score_no_weights:
  assumes "dimension_scores \<noteq> []"
  shows "calculate_overall_score dimension_scores None = clamp01 (mean_score dimension_scores)"
proof -
  let ?n = "real (length dimension_scores)"
  have n: "?n > 0" using assms by simp
  have tw: "(\<Sum>(dname, s) \<leftarrow> dimension_scores. dict_get (equal_weights dimension_scores ?n) dname 0) = 1"
    using n by (simp add: sum_equal_weights)
  have ws: "(\<Sum>(dname, s) \<leftarrow> dimension_scores. s * dict_get (equal_weights dimension_scores ?n) dname (1 / ?n))
            = mean_score dimension_scores"
    by (simp add: weighted_sum_equal_weights mean_score_def)
  show ?thesis
    using assms by (simp add: calculate_overall_score_def Let_def tw ws clamp01_def)
qed

text \<open>
  C5. With no weights supplied, the overall score of a non-empty score dictionary is the
  unweighted arithmetic mean of its scores, clamped to the interval from 0 to 1.
\<close>

theorem C5_unweighted_mean:
  assumes "dimension_scores \<noteq> []"
  shows "calculate_overall_score dimension_scores None = clamp01 (mean_score dimension_scores)"
  using assms by (rule calculate_overall_score_no_weights)

theorem C5_unweighted_mean_witness:
  "[(''brand_alignment'', 0.9), (''visual_quality'', 0.6 :: real)] \<noteq> []
   \<and> calculate_overall_score [(''brand_alignment'', 0.9), (''visual_quality'', 0.6)] None = 0.75"
  using C5_unweighted_mean [of "[(''brand_alignment'', 0.9), (''visual_quality'', 0.6)]"]
  by (simp add: clamp01_def mean_score_def)

text \<open>
  C4. For a non-empty score dictionary and the default thresholds, the verdict is a pass
  exactly when the overall score is at least 0.6 and the least dimension score is at
  least 0.4; a single dimension below 0.4 fails the variation whatever the overall score.
\<close>

theorem C4_pass_iff_thresholds:
  assumes "dimension_scores \<noteq> []"
  shows "(determine_pass_fail overall_score dimension_scores default_min_overall default_min_dimension
            \<longleftrightarrow> 0.6 \<le> overall_score \<and> 0.4 \<le> Min (snd ` set dimension_scores))
         \<and> ((\<exists>p \<in> set dimension_scores. snd p < 0.4)
            \<longrightarrow> \<not> determine_pass_fail overall_score dimension_scores default_min_overall default_min_dimension)"
proof -
  have fin: "finite (snd ` set dimension_scores)" "snd ` set dimension_scores \<noteq> {}"
    using assms by simp_all
  have "0.4 \<le> Min (snd ` set dimension_scores) \<longleftrightarrow> (\<forall>p \<in> set dimension_scores. 0.4 \<le> snd p)"
    unfolding Min_ge_iff [OF fin] by blast
  then show ?thesis
    by (auto simp: determine_pass_fail_def default_min_overall_def default_min_dimension_def
        dimensions_meet_minimum_iff not_less)
qed

theorem C4_pass_iff_thresholds_witness:
  "[(''brand_alignment'', 0.9), (''safety_ethics'', 0.3 :: real)] \<noteq> []
   \<and> \<not> determine_pass_fail 0.6 [(''brand_alignment'', 0.9), (''safety_ethics'', 0.3)]
         default_min_overall default_min_dimension
   \<and> determine_pass_fail 0.6 [(''brand_alignment'', 0.8), (''safety_ethics'', 0.4)]
         default_min_overall default_min_dimension"
  using C4_pass_iff_thresholds [of "[(''brand_alignment'', 0.9), (''safety_ethics'', 0.3)]" "0.6"]
    C4_pass_iff_thresholds [of "[(''brand_alignment'', 0.8), (''safety_ethics'', 0.4)]" "0.6"]
  by simp

text \<open>
  When the supplied weights sum to zero over the present dimensions, the source sets
  \<^verbatim>\<open>total_weight = len(dimension_scores)\<close>, rebuilds the weights as \<open>1 / total_weight\<close>
  and then still divides the weighted sum by \<^verbatim>\<open>total_weight\<close>: the mean is divided by
  the number of dimensions once more.
\<close>

lemma calculate_overall_score_zero_weight_sum:
  assumes "dimension_scores \<noteq> []"
    and "(\<Sum>(dname, s) \<leftarrow> dimension_scores. dict_get w dname 0) = 0"
  shows "calculate_overall_score dimension_scores (Some w)
         = clamp01 (mean_score dimension_scores / real (length dimension_scores))"
proof -
  let ?n = "real (length dimension_scores)"
  have n: "?n > 0" using assms(1) by simp
  have ws: "(\<Sum>(dname, s) \<leftarrow> dimension_scores. s * dict_get (equal_weights dimension_scores ?n) dname (1 / ?n))
            = mean_score dimension_scores"
    by (simp add: weighted_sum_equal_weights mean_score_def)
  show ?thesis
    using assms n by (simp add: calculate_overall_score_def Let_def ws clamp01_def)
qed

text \<open>
  C6. Two dimensions scoring 0.8 each and weights 0 for both: the overall score is 0.4,
  while the unweighted mean, and the score computed without weights, is 0.8.
\<close>

theorem C6_zero_weights_halve_the_mean:
  "calculate_overall_score [(''brand_alignment'', 0.8), (''visual_quality'', 0.8)]
     (Some [(''brand_alignment'', 0), (''visual_quality'', 0)]) = 0.4
   \<and> calculate_overall_score [(''brand_alignment'', 0.8), (''visual_quality'', 0.8)] None = 0.8
   \<and> clamp01 (mean_score [(''brand_alignment'', 0.8), (''visual_quality'', 0.8)]) = 0.8"
proof -
  let ?ds = "[(''brand_alignment'', 0.8 :: real), (''visual_quality'', 0.8)]"
  let ?w = "[(''brand_alignment'', 0 :: real), (''visual_quality'', 0)]"
  have m: "mean_score ?ds = 0.8" by (simp add: mean_score_def)
  have z: "(\<Sum>(dname, s) \<leftarrow> ?ds. dict_get ?w dname 0) = 0" by (simp add: dict_get_def)
  have "calculate_overall_score ?ds (Some ?w) = clamp01 (mean_score ?ds / real (length ?ds))"
    by (rule calculate_overall_score_zero_weight_sum [OF _ z]) simp
  then have a: "calculate_overall_score ?ds (Some ?w) = 0.4"
    unfolding m by (simp add: clamp01_def)
  have "calculate_overall_score ?ds None = clamp01 (mean_score ?ds)"
    by (rule calculate_overall_score_no_weights) simp
  then have b: "calculate_overall_score ?ds None = 0.8"
    unfolding m by (simp add: clamp01_def)
  have c: "clamp01 (mean_score ?ds) = 0.8" unfolding m by (simp add: clamp01_def)
  from a b c show ?thesis by blast
qed

section \<open>Response models (models/response.py)\<close>

text \<open>
  The pydantic models of the critique. \<^verbatim>\<open>issues\<close> and \<^verbatim>\<open>suggestions\<close> are optional in
  the class, but every ScoreCard of this program is built by \<^verbatim>\<open>Scorer.create_scorecard\<close>,
  which stores a list. The timestamp \<^verbatim>\<open>generated_at\<close> is left out. A report handed to
  the refinement agent is the \<^verbatim>\<open>model_dump()\<close> of a CritiqueReport: a dictionary with
  the same fields, for which the same records stand.
\<close>

record ScoreCard =
  dimension :: string
  score :: real
  feedback :: string
  issues :: "string list"
  suggestions :: "string list"

record VariationResult =
  variation_id :: string
  file_path :: string
  overall_score :: real
  scorecard :: "ScoreCard list"
  passed :: bool
  rank :: "nat option"

record CritiqueReport =
  report_run_id :: string
  total_variations :: int
  passed_variations :: int
  failed_variations :: int
  best_variation :: "VariationResult option"
  all_variations :: "VariationResult list"

section \<open>Ranker (critique_agent/scoring/ranker.py)\<close>

text \<open>
  \<^verbatim>\<open>sorted(xs, key=k, reverse=True)\<close>: Python's sort is stable, and with
  \<^verbatim>\<open>reverse=True\<close> it reverses the list, sorts it stably in ascending order and
  reverses the result, so that equal keys keep their input order.
\<close>

definition sorted_reverse :: "('a \<Rightarrow> real) \<Rightarrow> 'a list \<Rightarrow> 'a list" where
  "sorted_reverse key xs = rev (sort_key key (rev xs))"

text \<open>\<^verbatim>\<open>VariationRanker._calculate_weighted_score\<close>\<close>

definition calculate_weighted_score :: "VariationResult \<Rightarrow> real" where
  "calculate_weighted_score variation = overall_score variation"

text \<open>
  The loop \<^verbatim>\<open>for i, variation in enumerate(ranked): variation.rank = i + 1\<close>, started at
  index \<open>i\<close>. The variations of a list are distinct objects (the critique agent builds
  each one afresh), so the assignment to one changes no other.
\<close>

fun assign_ranks :: "nat \<Rightarrow> VariationResult list \<Rightarrow> VariationResult list" where
  "assign_ranks i [] = []"
| "assign_ranks i (variation # rest) =
     variation\<lparr>rank := Some (i + 1)\<rparr> # assign_ranks (i + 1) rest"

text \<open>\<^verbatim>\<open>VariationRanker.rank_variations(variation_results, ranking_strategy="overall")\<close>\<close>

definition rank_variations :: "VariationResult list \<Rightarrow> string \<Rightarrow> VariationResult list" where
  "rank_variations variation_results ranking_strategy =
     (let ranked =
        (if ranking_strategy = ''overall'' then sorted_reverse overall_score variation_results
         else if ranking_strategy = ''weighted''
           then sorted_reverse calculate_weighted_score variation_results
         else variation_results)
      in assign_ranks 0 ranked)"

text \<open>\<^verbatim>\<open>get_top_variations\<close> and \<^verbatim>\<open>get_passed_variations\<close>\<close>

definition get_top_variations :: "VariationResult list \<Rightarrow> nat \<Rightarrow> VariationResult list" where
  "get_top_variations variation_results top_n = take top_n (rank_variations variation_results ''overall'')"

definition get_passed_variations :: "VariationResult list \<Rightarrow> VariationResult list" where
  "get_passed_variations variation_results = filter passed variation_results"

text \<open>A variation with its rank erased, to compare a ranked list with the input.\<close>

definition unranked :: "VariationResult \<Rightarrow> VariationResult" where
  "unranked v = v\<lparr>rank := None\<rparr>"

section \<open>Properties of the Ranker\<close>

lemma sorted_reverse_descending:
  "sorted_wrt (\<lambda>a b. key b \<le> key a) (sorted_reverse key xs)"
proof -
  have "sorted (map key (sort_key key (rev xs)))"
    by (rule sorted_sort_key)
  then have "sorted_wrt (\<lambda>a b. key a \<le> key b) (sort_key key (rev xs))"
    by (simp add: sorted_map)
  then show ?thesis
    by (simp add: sorted_reverse_def sorted_wrt_rev)
qed

lemma sorted_reverse_stable:
  "filter (\<lambda>v. key v = k) (sorted_reverse key xs) = filter (\<lambda>v. key v = k) xs"
proof -
  have "filter (\<lambda>v. key v = k) (sorted_reverse key xs)
        = rev (filter (\<lambda>v. key v = k) (sort_key key (rev xs)))"
    by (simp add: sorted_reverse_def rev_filter)
  also have "\<dots> = rev (filter (\<lambda>v. key v = k) (rev xs))"
    by (simp only: sort_key_stable)
  also have "\<dots> = filter (\<lambda>v. key v = k) xs"
    by (simp add: rev_filter [symmetric])
  finally show ?thesis .
qed

lemma mset_sorted_reverse: "mset (sorted_reverse key xs) = mset xs"
  by (simp add: sorted_reverse_def)


lemma map_rank_assign_ranks: "map rank (assign_ranks i vs) = map Some [Suc i ..< Suc i + length vs]"
proof (induction vs arbitrary: i)
  case Nil
  then show ?case by simp
next
  case (Cons v vs)
  have "Suc i < Suc i + length (v # vs)" by simp
  then have "[Suc i ..< Suc i + length (v # vs)] = Suc i # [Suc (Suc i) ..< Suc i + length (v # vs)]"
    by (rule upt_conv_Cons)
  then show ?case using Cons.IH [of "Suc i"] by simp
qed

lemma map_unranked_assign_ranks: "map unranked (assign_ranks i vs) = map unranked vs"
  by (induction vs arbitrary: i) (auto simp: unranked_def)

lemma map_score_assign_ranks: "map overall_score (assign_ranks i vs) = map overall_score vs"
  by (induction vs arbitrary: i) auto

lemma overall_score_unranked: "overall_score (unranked v) = overall_score v"
  by (simp add: unranked_def)

lemma rank_variations_ranks:
  "map rank (rank_variations vs strategy) = map Some [1 ..< Suc (length vs)]"
  by (simp add: rank_variations_def Let_def map_rank_assign_ranks sorted_reverse_def)

lemma rank_variations_overall_unranked:
  "map unranked (rank_variations vs ''overall'') = map unranked (sorted_reverse overall_score vs)"
  by (simp add: rank_variations_def map_unranked_assign_ranks)

lemma rank_variations_overall_scores:
  "map overall_score (rank_variations vs ''overall'') = map overall_score (sorted_reverse overall_score vs)"
  by (simp add: rank_variations_def map_score_assign_ranks)

lemma rank_variations_descending:
  "sorted_wrt (\<lambda>a b. b \<le> a) (map overall_score (rank_variations vs ''overall''))"
  unfolding rank_variations_overall_scores
  using sorted_reverse_descending [of overall_score vs] by (simp add: sorted_wrt_map)

lemma filter_score_unranked:
  "filter (\<lambda>v. overall_score v = s) (map unranked xs) = map unranked (filter (\<lambda>v. overall_score v = s) xs)"
  by (simp add: filter_map o_def overall_score_unranked)

lemma rank_variations_stable:
  "filter (\<lambda>v. overall_score v = s) (map unranked (rank_variations vs ''overall''))
   = filter (\<lambda>v. overall_score v = s) (map unranked vs)"
  unfolding rank_variations_overall_unranked filter_score_unranked
  by (simp only: sorted_reverse_stable)

text \<open>
  C8. Ranking by the default strategy orders the variations by overall score, highest
  first; variations of equal score keep their input order (for every score, the ranked
  list and the input hold the same variations of that score in the same order); and the
  rank of the variation at position \<open>i\<close> is \<open>i + 1\<close>, so the ranks are 1, 2, ..., N.
\<close>

theorem C8_ranking_stable_descending:
  "map rank (rank_variations variation_results ''overall'')
     = map Some [1 ..< Suc (length variation_results)]
   \<and> sorted_wrt (\<lambda>a b. b \<le> a) (map overall_score (rank_variations variation_results ''overall''))
   \<and> (\<forall>s. filter (\<lambda>v. overall_score v = s) (map unranked (rank_variations variation_results ''overall''))
          = filter (\<lambda>v. overall_score v = s) (map unranked variation_results))
   \<and> mset (map unranked (rank_variations variation_results ''overall''))
       = mset (map unranked variation_results)"
proof -
  have "mset (map unranked (rank_variations variation_results ''overall''))
        = mset (map unranked variation_results)"
    unfolding rank_variations_overall_unranked by (simp add: mset_sorted_reverse)
  then show ?thesis
    using rank_variations_ranks [of variation_results "''overall''"]
      rank_variations_descending [of variation_results]
      rank_variations_stable [of _ variation_results]
    by blast
qed

text \<open>
  Three variations scoring 0.8, 0.8 and 0.6, submitted in that order, keep their order and
  get the ranks 1, 2 and 3.
\<close>

definition example_variation :: "string \<Rightarrow> real \<Rightarrow> VariationResult" where
  "example_variation vid s =
     \<lparr>variation_id = vid, file_path = ''ad.png'', overall_score = s, scorecard = [],
      passed = True, rank = None\<rparr>"

theorem C8_ranking_stable_descending_witness:
  "map rank (rank_variations
      [example_variation ''var_1'' 0.8, example_variation ''var_2'' 0.8, example_variation ''var_3'' 0.6]
      ''overall'') = [Some 1, Some 2, Some 3]
   \<and> map variation_id (rank_variations
      [example_variation ''var_1'' 0.8, example_variation ''var_2'' 0.8, example_variation ''var_3'' 0.6]
      ''overall'') = [''var_1'', ''var_2'', ''var_3'']
   \<and> map variation_id (rank_variations
      [example_variation ''var_1'' 0.6, example_variation ''var_2'' 0.8, example_variation ''var_3'' 0.8]
      ''overall'') = [''var_2'', ''var_3'', ''var_1'']"
proof -
  have ranks: "map rank (rank_variations
      [example_variation ''var_1'' 0.8, example_variation ''var_2'' 0.8, example_variation ''var_3'' 0.6]
      ''overall'') = [Some 1, Some 2, Some 3]"
    using C8_ranking_stable_descending
      [of "[example_variation ''var_1'' 0.8, example_variation ''var_2'' 0.8, example_variation ''var_3'' 0.6]"]
    by (simp add: upt_conv_Cons)
  have order1: "map variation_id (rank_variations
      [example_variation ''var_1'' 0.8, example_variation ''var_2'' 0.8, example_variation ''var_3'' 0.6]
      ''overall'') = [''var_1'', ''var_2'', ''var_3'']"
    by (simp add: rank_variations_def sorted_reverse_def example_variation_def)
  have order2: "map variation_id (rank_variations
      [example_variation ''var_1'' 0.6, example_variation ''var_2'' 0.8, example_variation ''var_3'' 0.8]
      ''overall'') = [''var_2'', ''var_3'', ''var_1'']"
    by (simp add: rank_variations_def sorted_reverse_def example_variation_def)
  from ranks order1 order2 show ?thesis by blast
qed

section \<open>Dimension evaluators (critique_agent/evaluators)\<close>

text \<open>
  The dictionary built by \<^verbatim>\<open>BaseEvaluator.create_result\<close>; the optional
  \<^verbatim>\<open>metadata\<close> entry is read by nobody and left out.
\<close>

record evaluation =
  eval_score :: real
  eval_feedback :: string
  eval_issues :: "string list"
  eval_suggestions :: "string list"

text \<open>\<^verbatim>\<open>xs or []\<close> for an optional list.\<close>

definition or_empty :: "'a list option \<Rightarrow> 'a list" where
  "or_empty xs = (case xs of None \<Rightarrow> [] | Some l \<Rightarrow> l)"

text \<open>\<^verbatim>\<open>xs if xs else None\<close>\<close>

definition if_nonempty :: "'a list \<Rightarrow> 'a list option" where
  "if_nonempty xs = (if xs = [] then None else Some xs)"

definition create_result :: "real \<Rightarrow> string \<Rightarrow> string list option \<Rightarrow> string list option \<Rightarrow> evaluation" where
  "create_result sc fb iss sugg =
     \<lparr>eval_score = max 0 (min 1 sc), eval_feedback = fb,
      eval_issues = or_empty iss, eval_suggestions = or_empty sugg\<rparr>"

text \<open>\<^verbatim>\<open>sep.join(parts)\<close>\<close>

fun join :: "string \<Rightarrow> string list \<Rightarrow> string" where
  "join sep [] = []"
| "join sep [x] = x"
| "join sep (x # y # rest) = x @ sep @ join sep (y # rest)"

text \<open>
  The analyses behind an evaluator (blur detection, logo matching, the vision model's
  judgement, ...) are outside the workflow core; what the core sees of one call of an
  analysis \<^verbatim>\<open>_evaluate_...\<close> is how it ends:
  \<^item> \<open>Returned t\<close>: one of its \<^verbatim>\<open>return\<close> statements gives the tuple \<open>t\<close> of score,
    feedback, issues and, for some analyses, suggestions;
  \<^item> \<open>RaisedInside msg\<close>: an exception \<open>e\<close> with \<^verbatim>\<open>str(e) = msg\<close> is raised inside the
    analysis's own \<^verbatim>\<open>try\<close> block;
  \<^item> \<open>Escaped msg\<close>: an exception is raised outside that block (by the lines before
    it, as \<^verbatim>\<open>brand_kit.get("logo", {}).get("file_path")\<close>, or by the handler itself)
    and reaches the \<^verbatim>\<open>try\<close> block of the evaluator.
\<close>

datatype 'a outcome = Returned 'a | RaisedInside string | Escaped string

type_synonym finding = "real \<times> string \<times> string list \<times> string list"

type_synonym finding3 = "real \<times> string \<times> string list"

text \<open>
  An analysis with its handler \<^verbatim>\<open>except Exception as e: return ...\<close>: the result is
  the tuple returned, the handler's tuple, or (\<open>Inl\<close>) the exception that escapes.
\<close>

definition handled :: "(string \<Rightarrow> 'a) \<Rightarrow> 'a outcome \<Rightarrow> string + 'a" where
  "handled handler result =
     (case result of
        Returned t \<Rightarrow> Inr t
      | RaisedInside e \<Rightarrow> Inr (handler e)
      | Escaped e \<Rightarrow> Inl e)"

text \<open>The three analyses of the brand evaluator (brand_evaluator.py).\<close>

definition evaluate_logo :: "finding3 outcome \<Rightarrow> string + finding3" where
  "evaluate_logo result = handled (\<lambda>e. (0.5, ''Logo evaluation error'', [e])) result"

definition evaluate_colors :: "finding outcome \<Rightarrow> string + finding" where
  "evaluate_colors result = handled (\<lambda>e. (0, ''Color evaluation error'', [e], [])) result"

definition evaluate_tone :: "finding3 outcome \<Rightarrow> string + finding3" where
  "evaluate_tone result = handled (\<lambda>e. (0.5, ''Tone evaluation error'', [e])) result"

text \<open>The three analyses of the quality evaluator (quality_evaluator.py).\<close>

definition evaluate_blur :: "finding outcome \<Rightarrow> string + finding" where
  "evaluate_blur result = handled (\<lambda>e. (0.5, ''Blur evaluation error'', [e], [])) result"

definition evaluate_artifacts :: "finding outcome \<Rightarrow> string + finding" where
  "evaluate_artifacts result = handled (\<lambda>e. (0.5, ''Artifact evaluation error'', [e], [])) result"

definition evaluate_composition :: "finding3 outcome \<Rightarrow> string + finding3" where
  "evaluate_composition result = handled (\<lambda>e. (0.5, ''Composition evaluation error'', [e])) result"

text \<open>
  The three analyses of the clarity evaluator (clarity_evaluator.py); the product
  analysis has the same handler in both of its variants.
\<close>

definition evaluate_product_visibility :: "finding outcome \<Rightarrow> string + finding" where
  "evaluate_product_visibility result =
     handled (\<lambda>e. (0.5, ''Product visibility evaluation error'', [e], [])) result"

definition evaluate_text_clarity :: "finding3 outcome \<Rightarrow> string + finding3" where
  "evaluate_text_clarity result = handled (\<lambda>e. (0.7, ''Text clarity evaluation error'', [e])) result"

definition evaluate_message_understanding :: "finding3 outcome \<Rightarrow> string + finding3" where
  "evaluate_message_understanding result =
     handled (\<lambda>e. (0.5, ''Message understanding evaluation error'', [e])) result"

text \<open>The three analyses of the safety evaluator (safety_evaluator.py).\<close>

definition evaluate_harmful_content :: "finding3 outcome \<Rightarrow> string + finding3" where
  "evaluate_harmful_content result =
     handled (\<lambda>e. (1, ''Harmful content evaluation error (assuming safe)'', [e])) result"

definition evaluate_stereotypes :: "finding3 outcome \<Rightarrow> string + finding3" where
  "evaluate_stereotypes result =
     handled (\<lambda>e. (1, ''Stereotype evaluation error (assuming safe)'', [e])) result"

definition evaluate_misleading_claims :: "finding3 outcome \<Rightarrow> string + finding3" where
  "evaluate_misleading_claims result =
     handled (\<lambda>e. (1, ''Misleading claims evaluation error (assuming safe)'', [e])) result"

text \<open>A tuple without suggestions takes part in the evaluator with none.\<close>

definition no_suggestions :: "string + finding3 \<Rightarrow> string + finding" where
  "no_suggestions r = (case r of Inl e \<Rightarrow> Inl e | Inr (sc, fb, iss) \<Rightarrow> Inr (sc, fb, iss, []))"

text \<open>
  The \<^verbatim>\<open>try\<close> block of an evaluator calls its analyses in order; the first
  exception that escapes from one ends the block.
\<close>

fun run_checks :: "(string + finding) list \<Rightarrow> string + finding list" where
  "run_checks [] = Inr []"
| "run_checks (Inl e # rest) = Inl e"
| "run_checks (Inr f # rest) =
     (case run_checks rest of Inl e \<Rightarrow> Inl e | Inr fs \<Rightarrow> Inr (f # fs))"

definition f_score :: "finding \<Rightarrow> real" where
  "f_score f = fst f"

definition f_feedback :: "finding \<Rightarrow> string" where
  "f_feedback f = fst (snd f)"

definition f_issues :: "finding \<Rightarrow> string list" where
  "f_issues f = fst (snd (snd f))"

definition f_suggestions :: "finding \<Rightarrow> string list" where
  "f_suggestions f = snd (snd (snd f))"

text \<open>\<^verbatim>\<open>sum(scores) / len(scores) if scores else 0.0\<close>\<close>

definition average :: "real list \<Rightarrow> real" where
  "average scores = (if scores = [] then 0 else sum_list scores / real (length scores))"

text \<open>The \<^verbatim>\<open>except Exception as e\<close> branch of \<^verbatim>\<open>evaluate\<close>, shared by the four evaluators.\<close>

definition error_result :: "string \<Rightarrow> string \<Rightarrow> evaluation" where
  "error_result what e =
     create_result 0 (''Error during '' @ what @ '' evaluation: '' @ e)
       (Some [''Evaluation error: '' @ e]) None"

text \<open>The end of the \<^verbatim>\<open>try\<close> block of the brand, quality and clarity evaluators.\<close>

definition averaged_result :: "finding list \<Rightarrow> evaluation" where
  "averaged_result fs =
     create_result (average (map f_score fs)) (join '' | '' (map f_feedback fs))
       (if_nonempty (concat (map f_issues fs))) (if_nonempty (concat (map f_suggestions fs)))"

text \<open>
  The end of the \<^verbatim>\<open>try\<close> block of the safety evaluator: the average of the three
  scores, capped at 0.3 or 0.5 when the harmful-content or the stereotype score is low.
\<close>

definition safety_result :: "finding list \<Rightarrow> evaluation" where
  "safety_result fs =
     (let scores = map f_score fs;
          harmful_score = scores ! 0;
          stereotype_score = scores ! 1;
          overall_score =
            (if scores \<noteq> [] then
               (let overall = sum_list scores / real (length scores)
                in if harmful_score < 0.3 \<or> stereotype_score < 0.3 then min overall 0.3
                   else if harmful_score < 0.5 \<or> stereotype_score < 0.5 then min overall 0.5
                   else overall)
             else 1)
      in create_result overall_score (join '' | '' (map f_feedback fs))
           (if_nonempty (concat (map f_issues fs))) None)"

text \<open>The calls of the analyses in the \<^verbatim>\<open>try\<close> block of each evaluator, in order.\<close>

definition brand_calls ::
  "finding3 outcome \<Rightarrow> finding outcome \<Rightarrow> finding3 outcome \<Rightarrow> (string + finding) list" where
  "brand_calls logo colors tone =
     [no_suggestions (evaluate_logo logo), evaluate_colors colors,
      no_suggestions (evaluate_tone tone)]"

definition quality_calls ::
  "finding outcome \<Rightarrow> finding outcome \<Rightarrow> finding3 outcome \<Rightarrow> (string + finding) list" where
  "quality_calls blur artifacts composition =
     [evaluate_blur blur, evaluate_artifacts artifacts,
      no_suggestions (evaluate_composition composition)]"

definition clarity_calls ::
  "finding outcome \<Rightarrow> finding3 outcome \<Rightarrow> finding3 outcome \<Rightarrow> (string + finding) list" where
  "clarity_calls product_visibility text_clarity message_understanding =
     [evaluate_product_visibility product_visibility,
      no_suggestions (evaluate_text_clarity text_clarity),
      no_suggestions (evaluate_message_understanding message_understanding)]"

definition safety_calls ::
  "finding3 outcome \<Rightarrow> finding3 outcome \<Rightarrow> finding3 outcome \<Rightarrow> (string + finding) list" where
  "safety_calls harmful stereotypes misleading =
     [no_suggestions (evaluate_harmful_content harmful),
      no_suggestions (evaluate_stereotypes stereotypes),
      no_suggestions (evaluate_misleading_claims misleading)]"

text \<open>\<^verbatim>\<open>BrandEvaluator.evaluate\<close>; \<open>brand_kit\<close> is the truth value of the brand kit.\<close>

definition brand_evaluate ::
  "bool \<Rightarrow> finding3 outcome \<Rightarrow> finding outcome \<Rightarrow> finding3 outcome \<Rightarrow> evaluation" where
  "brand_evaluate brand_kit logo colors tone =
     (if \<not> brand_kit
      then create_result 0.5 ''No brand kit provided for comparison''
             (Some [''Missing brand kit data'']) None
      else case run_checks (brand_calls logo colors tone) of
             Inl e \<Rightarrow> error_result ''brand'' e
           | Inr fs \<Rightarrow> averaged_result fs)"

text \<open>\<^verbatim>\<open>QualityEvaluator.evaluate\<close>\<close>

definition quality_evaluate ::
  "finding outcome \<Rightarrow> finding outcome \<Rightarrow> finding3 outcome \<Rightarrow> evaluation" where
  "quality_evaluate blur artifacts composition =
     (case run_checks (quality_calls blur artifacts composition) of
        Inl e \<Rightarrow> error_result ''quality'' e
      | Inr fs \<Rightarrow> averaged_result fs)"

text \<open>\<^verbatim>\<open>ClarityEvaluator.evaluate\<close>\<close>

definition clarity_evaluate ::
  "finding outcome \<Rightarrow> finding3 outcome \<Rightarrow> finding3 outcome \<Rightarrow> evaluation" where
  "clarity_evaluate product_visibility text_clarity message_understanding =
     (case run_checks (clarity_calls product_visibility text_clarity message_understanding) of
        Inl e \<Rightarrow> error_result ''clarity'' e
      | Inr fs \<Rightarrow> averaged_result fs)"

text \<open>\<^verbatim>\<open>SafetyEvaluator.evaluate\<close>\<close>

definition safety_evaluate ::
  "finding3 outcome \<Rightarrow> finding3 outcome \<Rightarrow> finding3 outcome \<Rightarrow> evaluation" where
  "safety_evaluate harmful stereotypes misleading =
     (case run_checks (safety_calls harmful stereotypes misleading) of
        Inl e \<Rightarrow> error_result ''safety'' e
      | Inr fs \<Rightarrow> safety_result fs)"

section \<open>Critique agent (critique_agent/agent.py)\<close>

text \<open>\<^verbatim>\<open>Scorer.create_scorecard\<close> and \<^verbatim>\<open>Scorer.create_scorecards_from_evaluations\<close>\<close>

definition create_scorecard ::
  "string \<Rightarrow> real \<Rightarrow> string \<Rightarrow> string list option \<Rightarrow> string list option \<Rightarrow> ScoreCard" where
  "create_scorecard dname sc fb iss sugg =
     \<lparr>dimension = dname, score = max 0 (min 1 sc), feedback = fb,
      issues = or_empty iss, suggestions = or_empty sugg\<rparr>"

definition create_scorecards_from_evaluations :: "(string \<times> evaluation) list \<Rightarrow> ScoreCard list" where
  "create_scorecards_from_evaluations evaluations =
     map (\<lambda>(dname, eval_result).
            create_scorecard dname (eval_score eval_result) (eval_feedback eval_result)
              (Some (eval_issues eval_result)) (Some (eval_suggestions eval_result)))
         evaluations"

text \<open>Decimal digits of a number, for \<^verbatim>\<open>f"var_{i+1}"\<close>.\<close>

fun str_nat :: "nat \<Rightarrow> string" where
  "str_nat n =
     (if n < 10 then [char_of (48 + n)]
      else str_nat (n div 10) @ [char_of (48 + n mod 10)])"

declare str_nat.simps [simp del]

text \<open>
  What one call of \<^verbatim>\<open>evaluate_variations\<close> meets outside the agent: whether an ad file
  exists, and how each analysis ends on an ad (for the brand kit, media type and prompt
  of the call).
\<close>

record ad_checks =
  logo :: "finding3 outcome"
  colors :: "finding outcome"
  tone :: "finding3 outcome"
  blur :: "finding outcome"
  artifacts :: "finding outcome"
  composition :: "finding3 outcome"
  product_visibility :: "finding outcome"
  text_clarity :: "finding3 outcome"
  message_understanding :: "finding3 outcome"
  harmful_content :: "finding3 outcome"
  stereotypes :: "finding3 outcome"
  misleading_claims :: "finding3 outcome"

record critique_env =
  path_exists :: "string \<Rightarrow> bool"
  checks :: "string \<Rightarrow> ad_checks"

text \<open>
  The body of the loop of \<^verbatim>\<open>evaluate_variations\<close> for an ad that exists: the four
  evaluators run in a thread pool and are joined, in the fixed order brand, quality,
  clarity, safety; then the scorecards, the overall score and the verdict. Each
  evaluator works on its own analyses, so the order in which the threads finish
  changes nothing. An ad path is written in the form \<^verbatim>\<open>str(Path(p))\<close> gives back.
\<close>

definition evaluate_one :: "critique_env \<Rightarrow> bool \<Rightarrow> nat \<Rightarrow> string \<Rightarrow> VariationResult" where
  "evaluate_one env brand_kit i ad_path =
     (let c = checks env ad_path;
          brand_result = brand_evaluate brand_kit (logo c) (colors c) (tone c);
          quality_result = quality_evaluate (blur c) (artifacts c) (composition c);
          clarity_result = clarity_evaluate (product_visibility c) (text_clarity c)
                             (message_understanding c);
          safety_result = safety_evaluate (harmful_content c) (stereotypes c)
                            (misleading_claims c);
          scorecards = create_scorecards_from_evaluations
            [(''brand_alignment'', brand_result), (''visual_quality'', quality_result),
             (''message_clarity'', clarity_result), (''safety_ethics'', safety_result)];
          dimension_scores =
            [(''brand_alignment'', eval_score brand_result),
             (''visual_quality'', eval_score quality_result),
             (''message_clarity'', eval_score clarity_result),
             (''safety_ethics'', eval_score safety_result)];
          overall = calculate_overall_score dimension_scores None;
          verdict = determine_pass_fail overall dimension_scores
                      default_min_overall default_min_dimension
      in \<lparr>variation_id = ''var_'' @ str_nat (i + 1), file_path = ad_path,
          overall_score = overall, scorecard = scorecards, passed = verdict, rank = None\<rparr>)"

text \<open>The loop over \<^verbatim>\<open>enumerate(ad_paths)\<close>, from index \<open>i\<close>; a missing file is skipped.\<close>

fun evaluate_each :: "critique_env \<Rightarrow> bool \<Rightarrow> nat \<Rightarrow> string list \<Rightarrow> VariationResult list" where
  "evaluate_each env brand_kit i [] = []"
| "evaluate_each env brand_kit i (ad_path # rest) =
     (if \<not> path_exists env ad_path then evaluate_each env brand_kit (i + 1) rest
      else evaluate_one env brand_kit i ad_path # evaluate_each env brand_kit (i + 1) rest)"

text \<open>\<^verbatim>\<open>CritiqueAgent.evaluate_variations\<close>\<close>

definition evaluate_variations ::
  "critique_env \<Rightarrow> string list \<Rightarrow> bool \<Rightarrow> string option \<Rightarrow> CritiqueReport" where
  "evaluate_variations env ad_paths brand_kit run_id =
     (let variation_results = evaluate_each env brand_kit 0 ad_paths;
          ranked_variations = rank_variations variation_results ''overall'';
          best = (case ranked_variations of [] \<Rightarrow> None | v # rest \<Rightarrow> Some v);
          passed_count = int (length (filter passed variation_results));
          failed_count = int (length variation_results) - passed_count
      in \<lparr>report_run_id = (case run_id of None \<Rightarrow> ''unknown''
                            | Some r \<Rightarrow> if r = [] then ''unknown'' else r),
          total_variations = int (length variation_results),
          passed_variations = passed_count,
          failed_variations = failed_count,
          best_variation = best,
          all_variations = ranked_variations\<rparr>)"

text \<open>
  The ScoreCard made from an evaluator's result, the one for an evaluator whose
  \<^verbatim>\<open>try\<close> block was left by the exception \<open>e\<close> (score 0, the error as feedback and as
  the only issue), and the three scorecard entries other than the \<open>k\<close>-th.
\<close>

definition card_of :: "string \<Rightarrow> evaluation \<Rightarrow> ScoreCard" where
  "card_of dname r =
     \<lparr>dimension = dname, score = eval_score r, feedback = eval_feedback r,
      issues = eval_issues r, suggestions = eval_suggestions r\<rparr>"


text \<open>Example surroundings: one ad file, every analysis returning 0.8.\<close>

definition sound_checks :: ad_checks where
  "sound_checks =
     \<lparr>logo = Returned (0.8, ''logo visible'', []),
      colors = Returned (0.8, ''colors consistent'', [], []),
      tone = Returned (0.8, ''tone fits'', []),
      blur = Returned (0.8, ''sharp'', [], []),
      artifacts = Returned (0.8, ''clean'', [], []),
      composition = Returned (0.8, ''balanced'', []),
      product_visibility = Returned (0.8, ''product visible'', [], []),
      text_clarity = Returned (0.8, ''text readable'', []),
      message_understanding = Returned (0.8, ''message clear'', []),
      harmful_content = Returned (0.8, ''nothing harmful'', []),
      stereotypes = Returned (0.8, ''no stereotypes'', []),
      misleading_claims = Returned (0.8, ''no misleading claims'', [])\<rparr>"

definition example_env :: "ad_checks \<Rightarrow> critique_env" where
  "example_env c = \<lparr>path_exists = (\<lambda>p. p = ''ad.png''), checks = (\<lambda>p. c)\<rparr>"


section \<open>Properties of the critique agent\<close>

lemma eval_score_create_result:
  "0 \<le> eval_score (create_result sc fb iss sugg) \<and> eval_score (create_result sc fb iss sugg) \<le> 1"
  by (simp add: create_result_def)

lemma evaluators_in_range:
  "0 \<le> eval_score (brand_evaluate bk l c t) \<and> eval_score (brand_evaluate bk l c t) \<le> 1"
  "0 \<le> eval_score (quality_evaluate b a k) \<and> eval_score (quality_evaluate b a k) \<le> 1"
  "0 \<le> eval_score (clarity_evaluate pv tc mu) \<and> eval_score (clarity_evaluate pv tc mu) \<le> 1"
  "0 \<le> eval_score (safety_evaluate h st m) \<and> eval_score (safety_evaluate h st m) \<le> 1"
  by (simp_all add: brand_evaluate_def quality_evaluate_def clarity_evaluate_def
      safety_evaluate_def error_result_def averaged_result_def safety_result_def Let_def
      eval_score_create_result split: sum.splits)

lemma create_scorecard_card_of:
  assumes "0 \<le> eval_score r \<and> eval_score r \<le> 1"
  shows "create_scorecard dname (eval_score r) (eval_feedback r)
           (Some (eval_issues r)) (Some (eval_suggestions r)) = card_of dname r"
  using assms by (simp add: create_scorecard_def card_of_def or_empty_def)

lemma scorecard_evaluate_one:
  "scorecard (evaluate_one env brand_kit i ad_path) =
     [card_of ''brand_alignment''
        (brand_evaluate brand_kit (logo (checks env ad_path)) (colors (checks env ad_path))
           (tone (checks env ad_path))),
      card_of ''visual_quality''
        (quality_evaluate (blur (checks env ad_path)) (artifacts (checks env ad_path))
           (composition (checks env ad_path))),
      card_of ''message_clarity''
        (clarity_evaluate (product_visibility (checks env ad_path))
           (text_clarity (checks env ad_path)) (message_understanding (checks env ad_path))),
      card_of ''safety_ethics''
        (safety_evaluate (harmful_content (checks env ad_path)) (stereotypes (checks env ad_path))
           (misleading_claims (checks env ad_path)))]"
  by (simp add: evaluate_one_def Let_def create_scorecards_from_evaluations_def
      create_scorecard_card_of evaluators_in_range)








lemma assign_ranks_head: "assign_ranks i vs = v # rest \<Longrightarrow> rank v = Some (i + 1)"
  by (cases vs) auto

lemma rank_variations_head:
  "rank_variations vs s = v # rest \<Longrightarrow> rank v = Some 1"
  unfolding rank_variations_def Let_def by (drule assign_ranks_head) simp











lemma best_variation_single:
  "best_variation (evaluate_variations (example_env c) [''ad.png''] bk rid)
   = Some ((evaluate_one (example_env c) bk 0 ''ad.png'')\<lparr>rank := Some 1\<rparr>)"
  by (simp add: evaluate_variations_def Let_def example_env_def rank_variations_def
      sorted_reverse_def)

text \<open>
  The field constraints of the pydantic models hold for every variation built, so the
  constructors \<^verbatim>\<open>ScoreCard(...)\<close> and \<^verbatim>\<open>VariationResult(...)\<close> never reject their
  arguments.
\<close>

lemma evaluate_one_in_range:
  "0 \<le> overall_score (evaluate_one env bk i p) \<and> overall_score (evaluate_one env bk i p) \<le> 1
   \<and> (\<forall>c \<in> set (scorecard (evaluate_one env bk i p)). 0 \<le> score c \<and> score c \<le> 1)"
proof -
  have "0 \<le> overall_score (evaluate_one env bk i p) \<and> overall_score (evaluate_one env bk i p) \<le> 1"
    by (simp add: evaluate_one_def Let_def calculate_overall_score_no_weights clamp01_def)
  moreover have "\<forall>c \<in> set (scorecard (evaluate_one env bk i p)). 0 \<le> score c \<and> score c \<le> 1"
    by (simp add: scorecard_evaluate_one card_of_def evaluators_in_range)
  ultimately show ?thesis by blast
qed

text \<open>
  C9. In every report of \<^verbatim>\<open>evaluate_variations\<close> the passed and the failed counts add
  up to the total, and a best variation, when there is one, has rank 1 and is the first
  of the ranked variations.
\<close>

theorem C9_counts_and_best_rank:
  "passed_variations (evaluate_variations env ad_paths brand_kit run_id)
     + failed_variations (evaluate_variations env ad_paths brand_kit run_id)
     = total_variations (evaluate_variations env ad_paths brand_kit run_id)
   \<and> (\<forall>best. best_variation (evaluate_variations env ad_paths brand_kit run_id) = Some best
         \<longrightarrow> rank best = Some 1
             \<and> all_variations (evaluate_variations env ad_paths brand_kit run_id) \<noteq> []
             \<and> best = hd (all_variations (evaluate_variations env ad_paths brand_kit run_id)))"
  by (auto simp: evaluate_variations_def Let_def split: list.splits dest: rank_variations_head)

theorem C9_counts_and_best_rank_witness:
  "best_variation (evaluate_variations (example_env sound_checks) [''ad.png''] True (Some ''run-1''))
     = Some ((evaluate_one (example_env sound_checks) True 0 ''ad.png'')\<lparr>rank := Some 1\<rparr>)
   \<and> rank ((evaluate_one (example_env sound_checks) True 0 ''ad.png'')\<lparr>rank := Some 1\<rparr>) = Some 1
   \<and> passed_variations (evaluate_variations (example_env sound_checks) [''ad.png''] True (Some ''run-1''))
     + failed_variations (evaluate_variations (example_env sound_checks) [''ad.png''] True (Some ''run-1''))
     = total_variations (evaluate_variations (example_env sound_checks) [''ad.png''] True (Some ''run-1''))"
proof -
  let ?r = "evaluate_variations (example_env sound_checks) [''ad.png''] True (Some ''run-1'')"
  let ?b = "(evaluate_one (example_env sound_checks) True 0 ''ad.png'')\<lparr>rank := Some 1\<rparr>"
  note c9 = C9_counts_and_best_rank [of "example_env sound_checks" "[''ad.png'']" True "Some ''run-1''"]
  have b: "best_variation ?r = Some ?b"
    by (rule best_variation_single)
  from c9 b have "rank ?b = Some 1" by blast
  with b c9 show ?thesis by blast
qed




section \<open>Refinement agent (refinement_agent/agent.py)\<close>

datatype RefinementStrategy = ENHANCE | REGENERATE | APPROVE | REJECT

text \<open>
  \<^verbatim>\<open>str.lower()\<close> and the substring test \<^verbatim>\<open>kw in text\<close>, on ASCII strings: the
  dimension names, the keywords and the evaluators' own messages are ASCII.
\<close>

definition lower_char :: "char \<Rightarrow> char" where
  "lower_char c =
     (case map_of (zip ''ABCDEFGHIJKLMNOPQRSTUVWXYZ'' ''abcdefghijklmnopqrstuvwxyz'') c of
        Some l \<Rightarrow> l
      | None \<Rightarrow> c)"

definition lower :: "string \<Rightarrow> string" where
  "lower s = map lower_char s"

fun contains :: "string \<Rightarrow> string \<Rightarrow> bool" where
  "contains [] kw = (kw = [])"
| "contains (c # cs) kw = (prefix kw (c # cs) \<or> contains cs kw)"

definition simple_issue_keywords :: "string list" where
  "simple_issue_keywords = [''blur'', ''noise'', ''artifact'', ''contrast'', ''brightness'', ''sharp'']"

definition complex_issue_keywords :: "string list" where
  "complex_issue_keywords =
     [''brand'', ''logo'', ''color'', ''message'', ''product'', ''safety'', ''stereotype'']"

text \<open>\<^verbatim>\<open>any(kw in text for kw in complex_issue_keywords)\<close>\<close>

definition any_complex_keyword :: "string \<Rightarrow> bool" where
  "any_complex_keyword s = list_ex (contains s) complex_issue_keywords"

text \<open>\<^verbatim>\<open>RefinementAgent._get_overall_score\<close>\<close>

definition get_overall_score :: "CritiqueReport \<Rightarrow> real" where
  "get_overall_score critique_feedback =
     (case all_variations critique_feedback of
        [] \<Rightarrow> 0
      | variation # rest \<Rightarrow> overall_score variation)"

text \<open>The loop of \<^verbatim>\<open>_has_critical_safety_issues\<close> over the scorecard.\<close>

fun critical_safety_in :: "ScoreCard list \<Rightarrow> bool" where
  "critical_safety_in [] = False"
| "critical_safety_in (entry # rest) =
     (if dimension entry = ''safety_ethics''
      then (if score entry < 0.3 then True else critical_safety_in rest)
      else critical_safety_in rest)"

text \<open>\<^verbatim>\<open>RefinementAgent._has_critical_safety_issues\<close>\<close>

definition has_critical_safety_issues :: "CritiqueReport \<Rightarrow> bool" where
  "has_critical_safety_issues critique_feedback =
     (case all_variations critique_feedback of
        [] \<Rightarrow> False
      | variation # rest \<Rightarrow> critical_safety_in (scorecard variation))"

text \<open>
  The loop of \<^verbatim>\<open>_has_only_simple_issues\<close>. The dimension name and the feedback are
  lower-cased, the issues are joined as they are; \<^verbatim>\<open>simple_issue_keywords\<close> is defined by
  the source and never read.
\<close>

fun only_simple_in :: "ScoreCard list \<Rightarrow> bool" where
  "only_simple_in [] = True"
| "only_simple_in (entry # rest) =
     (let dim_name = lower (dimension entry);
          fb = lower (feedback entry);
          all_text = fb @ '' '' @ join '' '' (issues entry)
      in if any_complex_keyword dim_name \<and> score entry < 0.7 then False
         else if any_complex_keyword all_text \<and> score entry < 0.7 then False
         else only_simple_in rest)"

text \<open>\<^verbatim>\<open>RefinementAgent._has_only_simple_issues\<close>\<close>

definition has_only_simple_issues :: "CritiqueReport \<Rightarrow> bool" where
  "has_only_simple_issues critique_feedback =
     (case all_variations critique_feedback of
        [] \<Rightarrow> False
      | variation # rest \<Rightarrow> only_simple_in (scorecard variation))"

text \<open>\<^verbatim>\<open>RefinementAgent._determine_strategy(critique_feedback, media_type)\<close>\<close>

definition determine_strategy :: "CritiqueReport \<Rightarrow> string \<Rightarrow> RefinementStrategy" where
  "determine_strategy critique_feedback media_type =
     (let overall = get_overall_score critique_feedback
      in if has_critical_safety_issues critique_feedback then REJECT
         else if overall < 0.3 then REJECT
         else if overall \<ge> 0.7 then APPROVE
         else if media_type = ''image'' \<and> has_only_simple_issues critique_feedback then ENHANCE
         else REGENERATE)"

text \<open>A report with one variation, for the examples.\<close>

definition report_of :: "real \<Rightarrow> ScoreCard list \<Rightarrow> CritiqueReport" where
  "report_of overall cards =
     \<lparr>report_run_id = ''run-1'', total_variations = 1, passed_variations = 0,
      failed_variations = 1,
      best_variation = Some \<lparr>variation_id = ''var_1'', file_path = ''ad.png'',
        overall_score = overall, scorecard = cards, passed = False, rank = Some 1\<rparr>,
      all_variations = [\<lparr>variation_id = ''var_1'', file_path = ''ad.png'',
        overall_score = overall, scorecard = cards, passed = False, rank = Some 1\<rparr>]\<rparr>"

definition score_card :: "string \<Rightarrow> real \<Rightarrow> string \<Rightarrow> string list \<Rightarrow> ScoreCard" where
  "score_card dname sc fb iss =
     \<lparr>dimension = dname, score = sc, feedback = fb, issues = iss, suggestions = []\<rparr>"

definition empty_report :: CritiqueReport where
  "empty_report =
     \<lparr>report_run_id = ''run-1'', total_variations = 0, passed_variations = 0,
      failed_variations = 0, best_variation = None, all_variations = []\<rparr>"

text \<open>Example reports: a weak brand score next to a blurred image, and others.\<close>

definition blurred_brand_report :: CritiqueReport where
  "blurred_brand_report =
     report_of 0.675
       [score_card ''brand_alignment'' 0.4 ''Needs work'' [],
        score_card ''visual_quality'' 0.4 ''Image is soft'' [''blur detected''],
        score_card ''message_clarity'' 0.9 ''Clear'' [],
        score_card ''safety_ethics'' 1 ''Nothing harmful'' []]"

definition low_resolution_report :: CritiqueReport where
  "low_resolution_report =
     report_of 0.5 [score_card ''visual_quality'' 0.5 ''Image is soft'' [''low resolution'']]"

definition missing_logo_report :: CritiqueReport where
  "missing_logo_report =
     report_of 0.5 [score_card ''visual_quality'' 0.5 ''Image is soft'' [''logo is cut off'']]"

definition unsafe_report :: CritiqueReport where
  "unsafe_report =
     report_of 0.9
       [score_card ''brand_alignment'' 1 ''On brand'' [],
        score_card ''safety_ethics'' 0.2 ''Harmful content'' [''violence'']]"

section \<open>Properties of the refinement policy\<close>

lemma contains_sublist: "contains s kw \<longleftrightarrow> sublist kw s"
  by (induction s) (auto simp: sublist_Cons_right)

lemma sublist_separator_split:
  assumes "sp \<notin> set kw"
  shows "sublist kw (a @ sp # b) \<longleftrightarrow> sublist kw a \<or> sublist kw b"
proof -
  have "\<And>xs1 xs2. kw = xs1 @ xs2 \<Longrightarrow> prefix xs2 (sp # b) \<Longrightarrow> xs2 = []"
    using assms by (metis Cons_prefix_Cons Un_iff list.set_intros(1) neq_Nil_conv set_append)
  then show ?thesis
    using assms
    by (auto simp: sublist_append sublist_Cons_right prefix_Cons suffix_def)
qed

lemma sublist_join:
  assumes "kw \<noteq> []" "CHR '' '' \<notin> set kw"
  shows "sublist kw (join '' '' iss) \<longleftrightarrow> (\<exists>i \<in> set iss. sublist kw i)"
  using assms
  by (induction "'' ''" iss rule: join.induct) (auto simp: sublist_separator_split)

lemma complex_keywords_plain:
  "kw \<in> set complex_issue_keywords \<Longrightarrow> kw \<noteq> [] \<and> CHR '' '' \<notin> set kw \<and> lower kw = kw"
  by (auto simp: complex_issue_keywords_def lower_def lower_char_def)

lemma any_complex_keyword_iff:
  "any_complex_keyword s \<longleftrightarrow> (\<exists>kw \<in> set complex_issue_keywords. sublist kw s)"
  by (simp add: any_complex_keyword_def list_ex_iff contains_sublist)

lemma any_complex_keyword_all_text:
  "any_complex_keyword (fb @ CHR '' '' # join '' '' iss)
   \<longleftrightarrow> any_complex_keyword fb \<or> (\<exists>i \<in> set iss. any_complex_keyword i)"
proof -
  have "sublist kw (fb @ CHR '' '' # join '' '' iss) \<longleftrightarrow> sublist kw fb \<or> (\<exists>i \<in> set iss. sublist kw i)"
    if "kw \<in> set complex_issue_keywords" for kw
    using complex_keywords_plain [OF that]
    by (simp add: sublist_separator_split sublist_join)
  then show ?thesis
    unfolding any_complex_keyword_iff by blast
qed

lemma any_complex_keyword_lower:
  assumes "any_complex_keyword s"
  shows "any_complex_keyword (lower s)"
proof -
  from assms obtain kw where kw: "kw \<in> set complex_issue_keywords" "sublist kw s"
    unfolding any_complex_keyword_iff by blast
  then have "sublist (map lower_char kw) (map lower_char s)"
    by (simp add: map_mono_sublist)
  moreover have "map lower_char kw = kw"
    using complex_keywords_plain [OF kw(1)] by (simp add: lower_def)
  ultimately show ?thesis
    using kw(1) unfolding any_complex_keyword_iff lower_def by auto
qed

lemma critical_safety_in_iff:
  "critical_safety_in cards \<longleftrightarrow> (\<exists>c \<in> set cards. dimension c = ''safety_ethics'' \<and> score c < 0.3)"
  by (induction cards) auto

lemma only_simple_in_iff:
  "only_simple_in cards \<longleftrightarrow>
     (\<forall>c \<in> set cards. score c < 0.7 \<longrightarrow>
        \<not> any_complex_keyword (lower (dimension c))
        \<and> \<not> any_complex_keyword (lower (feedback c))
        \<and> (\<forall>i \<in> set (issues c). \<not> any_complex_keyword i))"
  by (induction cards) (auto simp: Let_def any_complex_keyword_all_text)

text \<open>
  C2. When the first (top-ranked) variation of the critique has a safety_ethics
  ScoreCard with a score below 0.3, the strategy is reject, whatever the overall score,
  the other scores and the media type.
\<close>

theorem C2_low_safety_rejects:
  assumes "all_variations fb = first # rest"
    and "entry \<in> set (scorecard first)"
    and "dimension entry = ''safety_ethics''"
    and "score entry < 0.3"
  shows "determine_strategy fb media_type = REJECT"
proof -
  have "critical_safety_in (scorecard first)"
    unfolding critical_safety_in_iff using assms(2-4) by blast
  then have "has_critical_safety_issues fb"
    by (simp add: has_critical_safety_issues_def assms(1))
  then show ?thesis by (simp add: determine_strategy_def)
qed

theorem C2_low_safety_rejects_witness:
  "determine_strategy unsafe_report ''image'' = REJECT
   \<and> determine_strategy unsafe_report ''video'' = REJECT
   \<and> get_overall_score unsafe_report = 0.9"
proof -
  have vs: "all_variations unsafe_report =
      \<lparr>variation_id = ''var_1'', file_path = ''ad.png'', overall_score = 0.9,
        scorecard = [score_card ''brand_alignment'' 1 ''On brand'' [],
                     score_card ''safety_ethics'' 0.2 ''Harmful content'' [''violence'']],
        passed = False, rank = Some 1\<rparr> # []"
    by (simp add: unsafe_report_def report_of_def)
  have mem: "score_card ''safety_ethics'' 0.2 ''Harmful content'' [''violence'']
      \<in> set (scorecard \<lparr>variation_id = ''var_1'', file_path = ''ad.png'', overall_score = 0.9,
        scorecard = [score_card ''brand_alignment'' 1 ''On brand'' [],
                     score_card ''safety_ethics'' 0.2 ''Harmful content'' [''violence'']],
        passed = False, rank = Some 1\<rparr>)"
    by simp
  have d: "dimension (score_card ''safety_ethics'' 0.2 ''Harmful content'' [''violence'']) = ''safety_ethics''"
    and sc: "score (score_card ''safety_ethics'' 0.2 ''Harmful content'' [''violence'']) < 0.3"
    by (simp_all add: score_card_def)
  have "get_overall_score unsafe_report = 0.9"
    by (simp add: get_overall_score_def vs)
  with C2_low_safety_rejects [OF vs mem d sc, of "''image''"] C2_low_safety_rejects [OF vs mem d sc, of "''video''"]
  show ?thesis by blast
qed

text \<open>
  C10. For a critique without variations the overall score read is 0, no critical safety
  issue is reported, and the strategy is reject for every media type.
\<close>

theorem C10_empty_critique_rejected:
  assumes "all_variations fb = []"
  shows "get_overall_score fb = 0 \<and> \<not> has_critical_safety_issues fb
         \<and> determine_strategy fb media_type = REJECT"
  using assms
  by (simp add: get_overall_score_def has_critical_safety_issues_def determine_strategy_def)

theorem C10_empty_critique_rejected_witness:
  "all_variations empty_report = []
   \<and> determine_strategy empty_report ''image'' = REJECT
   \<and> determine_strategy empty_report ''video'' = REJECT
   \<and> get_overall_score empty_report = 0"
proof -
  have e: "all_variations empty_report = []" by (simp add: empty_report_def)
  from C10_empty_critique_rejected [OF e, of "''image''"] C10_empty_critique_rejected [OF e, of "''video''"] e show ?thesis by blast
qed

text \<open>
  C3, as stated, fails: the only issue flagged is "blur detected", which matches the
  simple keyword blur and no complex keyword, the overall score is 0.675 and the media
  type is image, yet the strategy is regenerate, because the brand_alignment dimension
  itself scores below 0.7.
\<close>

theorem C3_blur_with_weak_brand_counterexample:
  "get_overall_score blurred_brand_report = 0.675
   \<and> \<not> has_critical_safety_issues blurred_brand_report
   \<and> concat (map issues (scorecard (hd (all_variations blurred_brand_report)))) = [''blur detected'']
   \<and> contains ''blur detected'' ''blur''
   \<and> \<not> any_complex_keyword ''blur detected''
   \<and> determine_strategy blurred_brand_report ''image'' = REGENERATE
   \<and> determine_strategy blurred_brand_report ''image'' \<noteq> ENHANCE"
  by (simp add: blurred_brand_report_def report_of_def score_card_def get_overall_score_def
      has_critical_safety_issues_def determine_strategy_def has_only_simple_issues_def
      any_complex_keyword_def complex_issue_keywords_def lower_def lower_char_def)

text \<open>
  C3, amended. For an overall score from 0.3 up to, not including, 0.7 and no critical
  safety issue, the strategy is enhance or regenerate. It is regenerate when the media
  type is not image, and when some ScoreCard of the first variation scores below 0.7 and
  has a complex keyword in its lower-cased dimension name, in its lower-cased feedback
  or in one of its issues. It is enhance when the media type is image and no ScoreCard
  scoring below 0.7 has a complex keyword in its dimension name, its feedback or an
  issue, compared in lower case. The simple keywords are not consulted, and ScoreCards
  scoring 0.7 or more are not inspected.
\<close>

theorem C3_enhance_or_regenerate:
  assumes "0.3 \<le> get_overall_score fb" and "get_overall_score fb < 0.7"
    and "\<not> has_critical_safety_issues fb"
  shows "(media_type \<noteq> ''image'' \<longrightarrow> determine_strategy fb media_type = REGENERATE)
    \<and> ((\<exists>entry \<in> set (scorecard (hd (all_variations fb))).
           score entry < 0.7
           \<and> (any_complex_keyword (lower (dimension entry))
              \<or> any_complex_keyword (lower (feedback entry))
              \<or> (\<exists>i \<in> set (issues entry). any_complex_keyword i)))
        \<longrightarrow> determine_strategy fb media_type = REGENERATE)
    \<and> (media_type = ''image''
        \<and> (\<forall>entry \<in> set (scorecard (hd (all_variations fb))).
              score entry < 0.7 \<longrightarrow>
                \<not> any_complex_keyword (lower (dimension entry))
                \<and> \<not> any_complex_keyword (lower (feedback entry))
                \<and> (\<forall>i \<in> set (issues entry). \<not> any_complex_keyword (lower i)))
        \<longrightarrow> determine_strategy fb media_type = ENHANCE)
    \<and> (determine_strategy fb media_type = ENHANCE \<or> determine_strategy fb media_type = REGENERATE)"
proof -
  from assms(1) obtain first rest where vs: "all_variations fb = first # rest"
    by (cases "all_variations fb") (auto simp: get_overall_score_def)
  have strat: "determine_strategy fb media_type
      = (if media_type = ''image'' \<and> only_simple_in (scorecard first) then ENHANCE else REGENERATE)"
    using assms by (simp add: determine_strategy_def has_only_simple_issues_def vs)
  have hd: "hd (all_variations fb) = first" by (simp add: vs)
  show ?thesis
    unfolding strat hd only_simple_in_iff
    using any_complex_keyword_lower by auto
qed

theorem C3_enhance_or_regenerate_witness:
  "determine_strategy low_resolution_report ''image'' = ENHANCE
   \<and> determine_strategy low_resolution_report ''video'' = REGENERATE
   \<and> determine_strategy missing_logo_report ''image'' = REGENERATE"
proof -
  have r1: "0.3 \<le> get_overall_score low_resolution_report"
    "get_overall_score low_resolution_report < 0.7"
    "\<not> has_critical_safety_issues low_resolution_report"
    by (simp_all add: low_resolution_report_def report_of_def score_card_def get_overall_score_def
        has_critical_safety_issues_def)
  have r2: "0.3 \<le> get_overall_score missing_logo_report"
    "get_overall_score missing_logo_report < 0.7"
    "\<not> has_critical_safety_issues missing_logo_report"
    by (simp_all add: missing_logo_report_def report_of_def score_card_def get_overall_score_def
        has_critical_safety_issues_def)
  have clean: "\<forall>entry \<in> set (scorecard (hd (all_variations low_resolution_report))).
      score entry < 0.7 \<longrightarrow>
        \<not> any_complex_keyword (lower (dimension entry))
        \<and> \<not> any_complex_keyword (lower (feedback entry))
        \<and> (\<forall>i \<in> set (issues entry). \<not> any_complex_keyword (lower i))"
    by (simp add: low_resolution_report_def report_of_def score_card_def
        any_complex_keyword_def complex_issue_keywords_def lower_def lower_char_def)
  have logo: "\<exists>entry \<in> set (scorecard (hd (all_variations missing_logo_report))).
      score entry < 0.7
      \<and> (any_complex_keyword (lower (dimension entry))
         \<or> any_complex_keyword (lower (feedback entry))
         \<or> (\<exists>i \<in> set (issues entry). any_complex_keyword i))"
    by (simp add: missing_logo_report_def report_of_def score_card_def
        any_complex_keyword_def complex_issue_keywords_def lower_def lower_char_def)
  have a: "determine_strategy low_resolution_report ''image'' = ENHANCE"
    using C3_enhance_or_regenerate [OF r1, of "''image''"] clean by blast
  have b: "determine_strategy low_resolution_report ''video'' = REGENERATE"
    using C3_enhance_or_regenerate [OF r1, of "''video''"] by simp
  have c: "determine_strategy missing_logo_report ''image'' = REGENERATE"
    using C3_enhance_or_regenerate [OF r2, of "''image''"] logo by blast
  from a b c show ?thesis by blast
qed

section \<open>Workflow orchestrator (core/orchestrator.py)\<close>

text \<open>
  \<^verbatim>\<open>WorkflowState\<close>, the dictionary the graph works on. The entry \<^verbatim>\<open>final_result\<close> is
  written once, after the graph has stopped, with the value \<^verbatim>\<open>execute\<close> returns; it is
  that returned value here. A brand kit is a dictionary of texts.
\<close>

type_synonym brand_kit = "(string \<times> string) list"

record WorkflowState =
  run_id :: string
  user_prompt :: string
  media_type :: string
  brand_website_url :: "string option"
  logo_path :: "string option"
  product_path :: "string option"
  brand_kit :: "brand_kit option"
  brand_kit_extracted :: bool
  generated_ad_path :: "string option"
  generation_success :: bool
  generation_error :: "string option"
  critique_feedback :: "CritiqueReport option"
  critique_success :: bool
  critique_error :: "string option"
  state_overall_score :: "real option"
  refinement_strategy :: "string option"
  refined_ad_path :: "string option"
  refined_prompt :: "string option"
  refinement_success :: bool
  refinement_error :: "string option"
  retry_count :: int
  max_retries :: int
  workflow_status :: string
  error_message :: "string option"

text \<open>
  The agents are the workflow's collaborators. A call of \<^verbatim>\<open>agent.execute(...)\<close> raises
  an exception \<open>e\<close> (\<open>Raises (str e)\<close>), returns a result with a false \<^verbatim>\<open>success\<close>
  and perhaps an \<^verbatim>\<open>error\<close> entry (\<open>Fails\<close>), or returns its data with a true
  \<^verbatim>\<open>success\<close> (\<open>Succeeds\<close>).
\<close>

datatype 'a agent_outcome = Raises string | Fails "string option" | Succeeds 'a

text \<open>The dictionary built by \<^verbatim>\<open>RefinementAgent._create_result\<close>.\<close>

record refinement_result =
  result_success :: bool
  result_strategy :: string
  result_message :: string
  result_refined_ad_path :: "string option"
  result_refined_prompt :: "string option"

text \<open>
  \<^verbatim>\<open>RunStatus\<close> (models/run.py), the enumeration the orchestrator imports: its member
  names with their values.
\<close>

definition RunStatus :: "(string \<times> string) list" where
  "RunStatus =
     [(''PENDING'', ''pending''), (''BRAND_KIT_EXTRACTION'', ''brand_kit_extraction''),
      (''GENERATION'', ''generation''), (''CRITIQUE'', ''critique''),
      (''REFINEMENT'', ''refinement''), (''COMPLETED'', ''completed''),
      (''FAILED'', ''failed''), (''CANCELLED'', ''cancelled'')]"

text \<open>
  What one run meets outside the orchestrator: the outcome of each agent call, by the
  number of the step of the graph at which the call is made, and the wording of two
  exceptions that does not come from this repository: \<^verbatim>\<open>str(e)\<close> for the
  \<^verbatim>\<open>AttributeError\<close> the interpreter raises for a missing member of an enumeration,
  and for the \<^verbatim>\<open>GraphRecursionError\<close> of the graph library. The methods of
  \<^verbatim>\<open>run_manager\<close> record progress for polling; they are taken to return without an
  exception and they do not touch the workflow state, so their calls are left out. Their
  arguments are evaluated all the same.
\<close>

record workflow_env =
  brand_kit_agent :: "nat \<Rightarrow> brand_kit agent_outcome"
  generation_agent :: "nat \<Rightarrow> string option list agent_outcome"
  critique_agent :: "nat \<Rightarrow> CritiqueReport agent_outcome"
  refinement_agent :: "nat \<Rightarrow> string + refinement_result"
  attribute_error_text :: string
  recursion_error_text :: string

text \<open>
  \<^verbatim>\<open>RunStatus.NAME\<close>: the member's value, or an \<^verbatim>\<open>AttributeError\<close> (\<open>Inl\<close> of its
  text) when the enumeration has no such member.
\<close>

definition run_status :: "workflow_env \<Rightarrow> string \<Rightarrow> string + string" where
  "run_status env name =
     (case map_of RunStatus name of
        Some v \<Rightarrow> Inr v
      | None \<Rightarrow> Inl (attribute_error_text env))"

text \<open>\<^verbatim>\<open>not x\<close> for an optional string: absent or empty.\<close>

definition falsy :: "string option \<Rightarrow> bool" where
  "falsy x = (case x of None \<Rightarrow> True | Some v \<Rightarrow> v = [])"

text \<open>\<^verbatim>\<open>result.get("error", default)\<close>\<close>

definition error_or :: "string option \<Rightarrow> string \<Rightarrow> string" where
  "error_or err dflt = (case err of None \<Rightarrow> dflt | Some e \<Rightarrow> e)"

text \<open>
  \<^verbatim>\<open>brand_kit_node\<close>. On the success path the node evaluates
  \<^verbatim>\<open>RunStatus.PROCESSING\<close> inside its \<^verbatim>\<open>try\<close> block (line 108) before it returns; an
  exception there is caught by the node's \<^verbatim>\<open>except\<close> branch like one of the agent.
\<close>

definition brand_kit_node ::
  "workflow_env \<Rightarrow> brand_kit agent_outcome \<Rightarrow> WorkflowState \<Rightarrow> WorkflowState" where
  "brand_kit_node env result state =
     (case result of
        Succeeds kit \<Rightarrow>
          (case run_status env ''PROCESSING'' of
             Inr status \<Rightarrow> state\<lparr>brand_kit := Some kit, brand_kit_extracted := True\<rparr>
           | Inl e \<Rightarrow>
               state\<lparr>brand_kit_extracted := False, workflow_status := ''failed'',
                     error_message := Some e\<rparr>)
      | Fails err \<Rightarrow>
          state\<lparr>brand_kit_extracted := False, workflow_status := ''failed'',
                error_message := Some (error_or err ''Brand kit extraction failed'')\<rparr>
      | Raises e \<Rightarrow>
          state\<lparr>brand_kit_extracted := False, workflow_status := ''failed'',
                error_message := Some e\<rparr>)"

text \<open>
  \<^verbatim>\<open>generation_node\<close>; the data of a successful result are the file paths of its
  variations. \<^verbatim>\<open>RunStatus.PROCESSING\<close> is evaluated at line 166.
\<close>

definition generation_node ::
  "workflow_env \<Rightarrow> string option list agent_outcome \<Rightarrow> WorkflowState \<Rightarrow> WorkflowState" where
  "generation_node env result state =
     (case result of
        Succeeds variations \<Rightarrow>
          (case variations of
             first_variation # others \<Rightarrow>
               (case run_status env ''PROCESSING'' of
                  Inr status \<Rightarrow>
                    state\<lparr>generated_ad_path := first_variation, generation_success := True,
                          refined_prompt := None\<rparr>
                | Inl e \<Rightarrow>
                    state\<lparr>generation_success := False, generation_error := Some e,
                          workflow_status := ''failed'', error_message := Some e\<rparr>)
           | [] \<Rightarrow>
               state\<lparr>generation_success := False,
                     generation_error := Some ''No variations generated'',
                     workflow_status := ''failed'',
                     error_message := Some ''No variations generated''\<rparr>)
      | Fails err \<Rightarrow>
          state\<lparr>generation_success := False,
                generation_error := Some (error_or err ''Generation failed''),
                workflow_status := ''failed'',
                error_message := Some (error_or err ''Generation failed'')\<rparr>
      | Raises e \<Rightarrow>
          state\<lparr>generation_success := False, generation_error := Some e,
                workflow_status := ''failed'', error_message := Some e\<rparr>)"

text \<open>\<^verbatim>\<open>critique_node\<close>; \<^verbatim>\<open>RunStatus.PROCESSING\<close> is evaluated at line 256.\<close>

definition critique_node ::
  "workflow_env \<Rightarrow> CritiqueReport agent_outcome \<Rightarrow> WorkflowState \<Rightarrow> WorkflowState" where
  "critique_node env result state =
     (if falsy (generated_ad_path state)
      then state\<lparr>critique_success := False, critique_error := Some ''No generated ad to critique'',
                 workflow_status := ''failed'',
                 error_message := Some ''No generated ad to critique''\<rparr>
      else case result of
        Succeeds critique_report \<Rightarrow>
          (case run_status env ''PROCESSING'' of
             Inr status \<Rightarrow>
               state\<lparr>critique_feedback := Some critique_report, critique_success := True,
                     state_overall_score :=
                       Some (case all_variations critique_report of
                               [] \<Rightarrow> 0
                             | variation # rest \<Rightarrow> overall_score variation)\<rparr>
           | Inl e \<Rightarrow>
               state\<lparr>critique_success := False, critique_error := Some e,
                     workflow_status := ''failed'', error_message := Some e\<rparr>)
      | Fails err \<Rightarrow>
          state\<lparr>critique_success := False,
                critique_error := Some (error_or err ''Critique failed''),
                workflow_status := ''failed'',
                error_message := Some (error_or err ''Critique failed'')\<rparr>
      | Raises e \<Rightarrow>
          state\<lparr>critique_success := False, critique_error := Some e,
                workflow_status := ''failed'', error_message := Some e\<rparr>)"

text \<open>
  \<^verbatim>\<open>refinement_node\<close>; \<^verbatim>\<open>RunStatus.PROCESSING\<close> is evaluated at line 322, whenever
  the agent has returned a result.
\<close>

definition refinement_node ::
  "workflow_env \<Rightarrow> string + refinement_result \<Rightarrow> WorkflowState \<Rightarrow> WorkflowState" where
  "refinement_node env result state =
     (if critique_feedback state = None \<or> falsy (generated_ad_path state)
      then state\<lparr>refinement_success := False,
                 refinement_error := Some ''Missing critique feedback or generated ad'',
                 workflow_status := ''failed'',
                 error_message := Some ''Missing critique feedback or generated ad''\<rparr>
      else case result of
        Inr r \<Rightarrow>
          (case run_status env ''PROCESSING'' of
             Inr status \<Rightarrow>
               state\<lparr>refinement_strategy := Some (result_strategy r),
                     refined_ad_path := result_refined_ad_path r,
                     refined_prompt := result_refined_prompt r,
                     refinement_success := result_success r,
                     refinement_error :=
                       (if \<not> result_success r then Some (result_message r) else None)\<rparr>
           | Inl e \<Rightarrow>
               state\<lparr>refinement_success := False, refinement_error := Some e,
                     workflow_status := ''failed'', error_message := Some e\<rparr>)
      | Inl e \<Rightarrow>
          state\<lparr>refinement_success := False, refinement_error := Some e,
                workflow_status := ''failed'', error_message := Some e\<rparr>)"

text \<open>\<^verbatim>\<open>should_continue\<close>, the router after the refinement node.\<close>

definition should_continue :: "WorkflowState \<Rightarrow> string" where
  "should_continue state =
     (let strategy = refinement_strategy state;
          retries = retry_count state;
          limit = max_retries state
      in if falsy strategy then ''end''
         else if strategy = Some ''approve'' then ''approve''
         else if strategy = Some ''reject'' then ''reject''
         else if strategy = Some ''regenerate''
           then (if retries \<ge> limit then ''end'' else ''regenerate'')
         else if strategy = Some ''enhance'' then ''enhance''
         else ''end'')"

text \<open>
  The graph of \<^verbatim>\<open>create_workflow_graph\<close>: four nodes, the entry point brand_kit, the
  edges brand_kit to generation to critique to refinement, and after refinement the
  conditional edges chosen by \<^verbatim>\<open>should_continue\<close>; \<open>None\<close> is \<^verbatim>\<open>END\<close>.
\<close>

datatype node = BrandKit | Generation | Critique | Refinement

definition run_node :: "workflow_env \<Rightarrow> nat \<Rightarrow> node \<Rightarrow> WorkflowState \<Rightarrow> WorkflowState" where
  "run_node env step n state =
     (case n of
        BrandKit \<Rightarrow> brand_kit_node env (brand_kit_agent env step) state
      | Generation \<Rightarrow> generation_node env (generation_agent env step) state
      | Critique \<Rightarrow> critique_node env (critique_agent env step) state
      | Refinement \<Rightarrow> refinement_node env (refinement_agent env step) state)"

definition next_node :: "node \<Rightarrow> WorkflowState \<Rightarrow> node option" where
  "next_node n state =
     (case n of
        BrandKit \<Rightarrow> Some Generation
      | Generation \<Rightarrow> Some Critique
      | Critique \<Rightarrow> Some Refinement
      | Refinement \<Rightarrow>
          (let decision = should_continue state
           in if decision = ''approve'' then None
              else if decision = ''reject'' then None
              else if decision = ''regenerate'' then Some Generation
              else if decision = ''enhance'' then Some Critique
              else None))"

text \<open>
  \<^verbatim>\<open>self.workflow.stream(initial_state)\<close>, the run of the compiled graph by the LangGraph
  library. The library holds the state of the run. A step runs one node on that state;
  the dictionary the node returns (here always the whole state) becomes the state; the
  step's output, the node's name with the values it wrote, is handed to the consumer of
  the stream; and the edges, for refinement the router applied to the new state, give
  the next node. The output handed out is the consumer's own dictionary: what the
  consumer assigns in it is not seen by the nodes or the router. The stream is called
  without a configuration, so the library stops a run that has not reached \<^verbatim>\<open>END\<close>
  after its default number of steps by raising \<^verbatim>\<open>GraphRecursionError\<close>; the second
  component of the result tells whether the run reached \<^verbatim>\<open>END\<close>.
\<close>

fun stream :: "workflow_env \<Rightarrow> nat \<Rightarrow> nat \<Rightarrow> node \<Rightarrow> WorkflowState
    \<Rightarrow> (node \<times> WorkflowState) list \<times> bool" where
  "stream env 0 step n state = ([], False)"
| "stream env (Suc steps_left) step n state =
     (let node_state = run_node env step n state
      in case next_node n node_state of
           None \<Rightarrow> ([(n, node_state)], True)
         | Some n' \<Rightarrow>
             (case stream env steps_left (Suc step) n' node_state of
                (outputs, finished) \<Rightarrow> ((n, node_state) # outputs, finished)))"

definition recursion_limit :: nat where
  "recursion_limit = 25"

text \<open>
  The loop of \<^verbatim>\<open>execute\<close> over the outputs of the stream: the last output is the
  final state, and the retry count is raised in the output of a refinement step whose
  strategy is regenerate.
\<close>

fun consume :: "(node \<times> WorkflowState) list \<Rightarrow> WorkflowState option \<Rightarrow> WorkflowState option" where
  "consume [] final_state = final_state"
| "consume ((node_name, node_state) # rest) final_state =
     consume rest
       (Some (if node_name = Refinement \<and> refinement_strategy node_state = Some ''regenerate''
              then node_state\<lparr>retry_count := retry_count node_state + 1\<rparr>
              else node_state))"

text \<open>The dictionary \<^verbatim>\<open>execute\<close> returns; the entries missing after an exception are \<open>None\<close>.\<close>

record final_result =
  final_run_id :: string
  final_status :: string
  final_success :: bool
  final_generated_ad_path :: "string option"
  final_critique_report :: "CritiqueReport option"
  final_overall_score :: "real option"
  final_retry_count :: "int option"
  final_error :: "string option"

definition initial_state ::
  "string \<Rightarrow> string \<Rightarrow> string \<Rightarrow> string option \<Rightarrow> string option \<Rightarrow> string option \<Rightarrow> int
   \<Rightarrow> WorkflowState" where
  "initial_state rid prompt media url logo_file product_file retries_allowed =
     \<lparr>run_id = rid, user_prompt = prompt, media_type = media, brand_website_url = url,
      logo_path = logo_file, product_path = product_file, brand_kit = None,
      brand_kit_extracted = False, generated_ad_path = None, generation_success = False,
      generation_error = None, critique_feedback = None, critique_success = False,
      critique_error = None, state_overall_score = None, refinement_strategy = None,
      refined_ad_path = None, refined_prompt = None, refinement_success = False,
      refinement_error = None, retry_count = 0, max_retries = retries_allowed,
      workflow_status = ''in_progress'', error_message = None\<rparr>"

text \<open>\<^verbatim>\<open>a or b\<close> for two optional strings.\<close>

definition or_else :: "string option \<Rightarrow> string option \<Rightarrow> string option" where
  "or_else a b = (if falsy a then b else a)"

text \<open>The status given to the final state after the stream has ended.\<close>

definition determine_final_status :: "WorkflowState \<Rightarrow> int \<Rightarrow> WorkflowState" where
  "determine_final_status final_state retries_allowed =
     (let strategy = refinement_strategy final_state
      in if strategy = Some ''approve'' then final_state\<lparr>workflow_status := ''completed''\<rparr>
         else if strategy = Some ''reject'' then final_state\<lparr>workflow_status := ''rejected''\<rparr>
         else if retry_count final_state \<ge> retries_allowed
           then final_state\<lparr>workflow_status := ''failed'',
                            error_message := Some ''Maximum retries reached''\<rparr>
         else final_state)"

text \<open>An exception that leaves \<^verbatim>\<open>execute\<close>.\<close>

datatype python_error = AttributeError string

text \<open>
  \<^verbatim>\<open>WorkflowOrchestrator.execute\<close>. Line 499 evaluates \<^verbatim>\<open>RunStatus.PROCESSING\<close>
  before the \<^verbatim>\<open>try\<close> block, so an exception there leaves \<^verbatim>\<open>execute\<close>. Inside the
  block, an exception of the stream, or of \<^verbatim>\<open>RunStatus.PROCESSING\<close> at line 599 for a
  completed run, is turned into the short failure dictionary. Storing the report comes
  after the result is built and does not change it.
\<close>

definition failure_result :: "string \<Rightarrow> string \<Rightarrow> final_result" where
  "failure_result rid e =
     \<lparr>final_run_id = rid, final_status = ''failed'', final_success = False,
      final_generated_ad_path = None, final_critique_report = None,
      final_overall_score = None, final_retry_count = None, final_error = Some e\<rparr>"

definition execute ::
  "workflow_env \<Rightarrow> string \<Rightarrow> string \<Rightarrow> string \<Rightarrow> string option \<Rightarrow> string option
   \<Rightarrow> string option \<Rightarrow> int \<Rightarrow> python_error + final_result" where
  "execute env rid prompt media url logo_file product_file retries_allowed =
     (let start = initial_state rid prompt media url logo_file product_file retries_allowed
      in case run_status env ''PROCESSING'' of
           Inl e \<Rightarrow> Inl (AttributeError e)
         | Inr status \<Rightarrow>
             (case stream env recursion_limit 0 BrandKit start of
                (outputs, finished) \<Rightarrow>
                  if \<not> finished then Inr (failure_result rid (recursion_error_text env))
                  else
                    (let last_state =
                           (case consume outputs None of
                              None \<Rightarrow> start\<lparr>workflow_status := ''failed'',
                                            error_message := Some ''Workflow execution failed''\<rparr>
                            | Some node_state \<Rightarrow> node_state);
                         final_state = determine_final_status last_state retries_allowed;
                         final =
                           \<lparr>final_run_id = rid,
                            final_status = workflow_status final_state,
                            final_success = (workflow_status final_state = ''completed''),
                            final_generated_ad_path =
                              or_else (refined_ad_path final_state) (generated_ad_path final_state),
                            final_critique_report = critique_feedback final_state,
                            final_overall_score = state_overall_score final_state,
                            final_retry_count = Some (retry_count final_state),
                            final_error = error_message final_state\<rparr>
                     in if workflow_status final_state = ''completed''
                        then (case run_status env ''PROCESSING'' of
                                Inl e \<Rightarrow> Inr (failure_result rid e)
                              | Inr status' \<Rightarrow> Inr final)
                        else Inr final)))"

text \<open>
  A run in which every agent succeeds and the refinement agent asks for a regeneration
  after every critique. The two exception texts stand for whatever the interpreter and
  the graph library word them as.
\<close>

definition regenerating_env :: workflow_env where
  "regenerating_env =
     \<lparr>brand_kit_agent = (\<lambda>step. Succeeds [(''name'', ''Acme'')]),
      generation_agent = (\<lambda>step. Succeeds [Some ''ad.png'']),
      critique_agent = (\<lambda>step. Succeeds missing_logo_report),
      refinement_agent = (\<lambda>step. Inr \<lparr>result_success = True, result_strategy = ''regenerate'',
         result_message = ''Prompt refined for regeneration'',
         result_refined_ad_path = None, result_refined_prompt = Some ''a better prompt''\<rparr>),
      attribute_error_text = ''PROCESSING'',
      recursion_error_text = ''recursion limit reached''\<rparr>"

section \<open>Properties of the workflow\<close>

text \<open>
  \<^verbatim>\<open>RunStatus\<close> has no member \<^verbatim>\<open>PROCESSING\<close>: the expression
  \<^verbatim>\<open>RunStatus.PROCESSING\<close> raises wherever it is evaluated.
\<close>

lemma run_status_processing: "run_status env ''PROCESSING'' = Inl (attribute_error_text env)"
  by (simp add: run_status_def RunStatus_def)

text \<open>
  No node writes the refinement strategy, the path of the generated ad, the critique
  feedback, the retry count or the retry budget: the only writes of the first three are
  behind \<^verbatim>\<open>RunStatus.PROCESSING\<close>.
\<close>

lemma run_node_keeps:
  "refinement_strategy (run_node env step n state) = refinement_strategy state
   \<and> generated_ad_path (run_node env step n state) = generated_ad_path state
   \<and> critique_feedback (run_node env step n state) = critique_feedback state
   \<and> retry_count (run_node env step n state) = retry_count state
   \<and> max_retries (run_node env step n state) = max_retries state"
  by (simp add: run_node_def brand_kit_node_def generation_node_def critique_node_def
      refinement_node_def run_status_processing
      split: node.splits agent_outcome.splits list.splits sum.splits)

lemma refinement_node_keeps_strategy:
  "refinement_strategy (refinement_node env result state) = refinement_strategy state"
  by (simp add: refinement_node_def run_status_processing split: sum.splits)

lemma execute_raises:
  "execute env rid prompt media url logo_file product_file retries_allowed
   = Inl (AttributeError (attribute_error_text env))"
  by (simp add: execute_def run_status_processing)

text \<open>
  The router and the final status do what the retry budget asks of them, on the retry
  count they are given.
\<close>

lemma should_continue_regenerate:
  assumes "refinement_strategy state = Some ''regenerate''"
  shows "should_continue state = (if retry_count state \<ge> max_retries state then ''end'' else ''regenerate'')"
  using assms by (simp add: should_continue_def falsy_def)

lemma router_forces_end:
  assumes "refinement_strategy state = Some ''regenerate''"
    and "retry_count state \<ge> max_retries state"
  shows "next_node Refinement state = None"
  using assms by (simp add: next_node_def should_continue_regenerate)

lemma exhausted_status:
  assumes "refinement_strategy state = Some ''regenerate''"
    and "retry_count state \<ge> retries_allowed"
  shows "workflow_status (determine_final_status state retries_allowed) = ''failed''
       \<and> error_message (determine_final_status state retries_allowed) = Some ''Maximum retries reached''"
  using assms by (simp add: determine_final_status_def)

text \<open>The graph started on a state without a strategy stops after its first four steps.\<close>

lemma next_node_no_strategy:
  assumes "refinement_strategy state = None"
  shows "next_node Refinement state = None"
  using assms by (simp add: next_node_def should_continue_def falsy_def)

lemma stream_four_steps:
  assumes "refinement_strategy state = None"
  shows "stream env (Suc (Suc (Suc (Suc k)))) step BrandKit state =
     ([(BrandKit, run_node env step BrandKit state),
       (Generation, run_node env (Suc step) Generation (run_node env step BrandKit state)),
       (Critique, run_node env (Suc (Suc step)) Critique
          (run_node env (Suc step) Generation (run_node env step BrandKit state))),
       (Refinement, run_node env (Suc (Suc (Suc step))) Refinement
          (run_node env (Suc (Suc step)) Critique
             (run_node env (Suc step) Generation (run_node env step BrandKit state))))], True)"
proof -
  let ?s1 = "run_node env step BrandKit state"
  let ?s2 = "run_node env (Suc step) Generation ?s1"
  let ?s3 = "run_node env (Suc (Suc step)) Critique ?s2"
  let ?s4 = "run_node env (Suc (Suc (Suc step))) Refinement ?s3"
  have "refinement_strategy ?s4 = None"
    using assms by (simp add: run_node_keeps)
  then have stop: "next_node Refinement ?s4 = None"
    by (rule next_node_no_strategy)
  have nxt: "next_node BrandKit ?s1 = Some Generation" "next_node Generation ?s2 = Some Critique"
    "next_node Critique ?s3 = Some Refinement"
    by (simp_all add: next_node_def)
  show ?thesis
    by (simp add: Let_def nxt stop)
qed

lemma stream_from_initial_state:
  "stream env recursion_limit 0 BrandKit
     (initial_state rid prompt media url logo_file product_file retries_allowed) =
     ([(BrandKit, run_node env 0 BrandKit
          (initial_state rid prompt media url logo_file product_file retries_allowed)),
       (Generation, run_node env 1 Generation (run_node env 0 BrandKit
          (initial_state rid prompt media url logo_file product_file retries_allowed))),
       (Critique, run_node env 2 Critique (run_node env 1 Generation (run_node env 0 BrandKit
          (initial_state rid prompt media url logo_file product_file retries_allowed)))),
       (Refinement, run_node env 3 Refinement (run_node env 2 Critique
          (run_node env 1 Generation (run_node env 0 BrandKit
             (initial_state rid prompt media url logo_file product_file retries_allowed)))))],
      True)"
proof -
  have limit: "recursion_limit = Suc (Suc (Suc (Suc 21)))"
    by (simp add: recursion_limit_def)
  have start: "refinement_strategy
      (initial_state rid prompt media url logo_file product_file retries_allowed) = None"
    by (simp add: initial_state_def)
  show ?thesis
    unfolding limit stream_four_steps [OF start]
    by (simp add: numeral_2_eq_2 numeral_3_eq_3)
qed

text \<open>
  C1. No run carries out a regenerate cycle. \<^verbatim>\<open>execute\<close> raises the
  \<^verbatim>\<open>AttributeError\<close> of line 499 for every input and gives no status at all. Run on
  its own from the initial state, the graph stops after brand_kit, generation, critique
  and refinement: the refinement node never records the strategy of its agent, the
  router reads no strategy at its only decision, and the retry count stays 0.
\<close>

theorem C1_no_regenerate_cycle_runs:
  "execute env rid prompt media url logo_file product_file retries_allowed
     = Inl (AttributeError (attribute_error_text env))
   \<and> refinement_strategy (refinement_node env result state) = refinement_strategy state
   \<and> map fst (fst (stream env recursion_limit 0 BrandKit
         (initial_state rid prompt media url logo_file product_file retries_allowed)))
       = [BrandKit, Generation, Critique, Refinement]
   \<and> snd (stream env recursion_limit 0 BrandKit
         (initial_state rid prompt media url logo_file product_file retries_allowed)) = True
   \<and> map (\<lambda>output. refinement_strategy (snd output))
         (fst (stream env recursion_limit 0 BrandKit
            (initial_state rid prompt media url logo_file product_file retries_allowed)))
       = [None, None, None, None]
   \<and> map (\<lambda>output. retry_count (snd output))
         (fst (stream env recursion_limit 0 BrandKit
            (initial_state rid prompt media url logo_file product_file retries_allowed)))
       = [0, 0, 0, 0]"
proof -
  have start: "refinement_strategy
      (initial_state rid prompt media url logo_file product_file retries_allowed) = None"
    "retry_count (initial_state rid prompt media url logo_file product_file retries_allowed) = 0"
    by (simp_all add: initial_state_def)
  show ?thesis
    unfolding stream_from_initial_state
    by (simp add: execute_raises refinement_node_keeps_strategy run_node_keeps start)
qed

text \<open>
  A run that would use up its retry budget: every agent succeeds, the refinement agent
  asks for a regeneration each time, three retries are allowed.
\<close>

lemma regenerating_run_raises:
  "execute regenerating_env ''run-1'' ''an ad'' ''image'' None None None 3
   = Inl (AttributeError ''PROCESSING'')"
  by (simp add: execute_raises regenerating_env_def)

end
